theory Spec2Isabelle
  imports Complex_Main "HOL-Library.Sublist"
begin

section \<open>The depth colouring of \<^verbatim>\<open>POINTCLOUD_VERTEX_SHADER\<close>\<close>

text \<open>
  The vertex shader of \<^verbatim>\<open>ZEDv1_pltview.py\<close> colours a vertex by its distance from the
  camera. The GLSL arithmetic is read over the rationals: \<^verbatim>\<open>float\<close> becomes \<^typ>\<open>rat\<close>,
  the literals \<^verbatim>\<open>0.5\<close>, \<^verbatim>\<open>10.0\<close>, \<^verbatim>\<open>0.33\<close>, \<^verbatim>\<open>0.67\<close> and \<^verbatim>\<open>3.0\<close> are the exact
  fractions they denote, and a \<^verbatim>\<open>vec3\<close> is a triple (red, green, blue).
  The input is the value of the local \<^verbatim>\<open>depth\<close>; computing it from the vertex position
  (\<^verbatim>\<open>length(in_VertexRGBA.xyz)\<close>) needs a square root and is left outside.
\<close>

type_synonym vec3 = "rat \<times> rat \<times> rat"

text \<open>GLSL's built-in \<^verbatim>\<open>clamp(x, minVal, maxVal)\<close> is \<^verbatim>\<open>min(max(x, minVal), maxVal)\<close>.\<close>

definition clamp :: "rat \<Rightarrow> rat \<Rightarrow> rat \<Rightarrow> rat" where
  "clamp x minVal maxVal = min (max x minVal) maxVal"

definition min_depth :: rat where
  "min_depth = 0.5"

definition max_depth :: rat where
  "max_depth = 10.0"

text \<open>\<^verbatim>\<open>float normalized_depth = clamp((depth - min_depth) / (max_depth - min_depth), 0.0, 1.0);\<close>\<close>

definition normalized_depth :: "rat \<Rightarrow> rat" where
  "normalized_depth depth = clamp ((depth - min_depth) / (max_depth - min_depth)) 0.0 1.0"

text \<open>
  The three branches of the \<^verbatim>\<open>if\<close> chain, each as a function of the normalised depth:
  \<^verbatim>\<open>vec3(1.0, normalized_depth * 3.0, 0.0)\<close>, then with \<^verbatim>\<open>t = (normalized_depth - 0.33) * 3.0\<close>
  the value \<^verbatim>\<open>vec3(1.0 - t, 1.0, t)\<close>, then with \<^verbatim>\<open>t = (normalized_depth - 0.67) * 3.0\<close>
  the value \<^verbatim>\<open>vec3(0.0, 1.0 - t, 1.0)\<close>.
\<close>

definition segment1 :: "rat \<Rightarrow> vec3" where
  "segment1 nd = (1.0, nd * 3.0, 0.0)"

definition segment2 :: "rat \<Rightarrow> vec3" where
  "segment2 nd = (let t = (nd - 0.33) * 3.0 in (1.0 - t, 1.0, t))"

definition segment3 :: "rat \<Rightarrow> vec3" where
  "segment3 nd = (let t = (nd - 0.67) * 3.0 in (0.0, 1.0 - t, 1.0))"

definition gradient :: "rat \<Rightarrow> vec3" where
  "gradient nd =
     (if nd < 0.33 then segment1 nd
      else if nd < 0.67 then segment2 nd
      else segment3 nd)"

definition color :: "rat \<Rightarrow> vec3" where
  "color depth = gradient (normalized_depth depth)"

text \<open>The channels of a colour, and the colours the source's comments name.\<close>

definition red_of :: "vec3 \<Rightarrow> rat" where
  "red_of c = fst c"

definition green_of :: "vec3 \<Rightarrow> rat" where
  "green_of c = fst (snd c)"

definition blue_of :: "vec3 \<Rightarrow> rat" where
  "blue_of c = snd (snd c)"

definition pure_red :: vec3 where
  "pure_red = (1, 0, 0)"

definition pure_yellow :: vec3 where
  "pure_yellow = (1, 1, 0)"

definition pure_cyan :: vec3 where
  "pure_cyan = (0, 1, 1)"

definition pure_blue :: vec3 where
  "pure_blue = (0, 0, 1)"

text \<open>
  The reference definition of the specification, for comparison with \<^const>\<open>color\<close>: the
  normalised depth is clamped to \<open>[0,1]\<close>, and each of the ranges \<open>[0, 0.33)\<close>,
  \<open>[0.33, 0.67)\<close> and \<open>[0.67, 1.0]\<close> interpolates linearly between the two colours named
  for its end points, reaching each of them exactly there.
\<close>

definition lerp :: "vec3 \<Rightarrow> vec3 \<Rightarrow> rat \<Rightarrow> vec3" where
  "lerp a b s =
     (red_of a + (red_of b - red_of a) * s,
      green_of a + (green_of b - green_of a) * s,
      blue_of a + (blue_of b - blue_of a) * s)"

definition reference_gradient :: "rat \<Rightarrow> vec3" where
  "reference_gradient nd =
     (if nd < 0.33 then lerp pure_red pure_yellow ((nd - 0) / (0.33 - 0))
      else if nd < 0.67 then lerp pure_yellow pure_cyan ((nd - 0.33) / (0.67 - 0.33))
      else lerp pure_cyan pure_blue ((nd - 0.67) / (1.0 - 0.67)))"

definition reference_color :: "rat \<Rightarrow> vec3" where
  "reference_color depth =
     reference_gradient (clamp ((depth - 0.5) / (10.0 - 0.5)) 0 1)"

section \<open>Command line options and camera configuration\<close>

text \<open>
  The camera SDK (\<^verbatim>\<open>pyzed.sl\<close>) and the viewer (\<^verbatim>\<open>ogl_viewer\<close>) are imported by the
  script and are not part of it. Of the SDK's \<^verbatim>\<open>ERROR_CODE\<close> the script only compares
  a status with \<^verbatim>\<open>SUCCESS\<close>, so every other status is \<open>FAILURE\<close> with the SDK's code.
  Of \<^verbatim>\<open>RESOLUTION\<close> the script names six members; \<open>AUTO\<close> stands for a member it does
  not name. Of \<^verbatim>\<open>InitParameters\<close> the model keeps the input selected by
  \<^verbatim>\<open>set_from_svo_file\<close> and \<^verbatim>\<open>set_from_stream\<close> (the live camera when neither was called),
  and \<^verbatim>\<open>camera_resolution\<close>; the fields \<^verbatim>\<open>main\<close> sets to constants are left out.
\<close>

datatype ERROR_CODE = SUCCESS | FAILURE int

datatype RESOLUTION = HD2K | HD1200 | HD1080 | HD720 | SVGA | VGA | AUTO

datatype input_type = LIVE | SVO string | STREAM string "int option"

record InitParameters =
  input :: input_type
  camera_resolution :: RESOLUTION

text \<open>The namespace \<^verbatim>\<open>opt\<close> that \<^verbatim>\<open>argparse\<close> returns: three strings, each \<^verbatim>\<open>''\<close> by default.\<close>

record options =
  input_svo_file :: string
  ip_address :: string
  resolution :: string

datatype py_error = ValueError

text \<open>
  What the script prints, one constructor per \<^verbatim>\<open>print\<close> call (the banner of
  \<^verbatim>\<open>main\<close>, nine calls with constant texts, is one constructor), with the values the
  text is formatted from.
\<close>

datatype message =
    Banner
  | UsingSvoFileInput string
  | UsingStreamInput string
  | InvalidIpFormat
  | UsingCameraInResolution RESOLUTION
  | NoValidResolutionEntered
  | UsingDefaultResolution
  | ErrorOpeningCamera ERROR_CODE
  | PointCloudSavedTo string
  | FailedToSavePointCloud ERROR_CODE
  | RecordingEnabled
  | RecordingDisabled int
  | RecordingFrame int string
  | FailedToSaveFrame ERROR_CODE
  | ApplicationClosed
  | SpecifyOnlyOneInput

text \<open>
  What the script does to the outside, in order: console output, the calls that configure
  and open the camera, writes of point-cloud files, and the final clean-up. Creating the
  output directory, setting up the viewer, and the calls that only read a frame or hand it
  to the viewer are not recorded.
\<close>

datatype effect =
    Print message
  | SetFromSvoFile string
  | SetFromStream string "int option"
  | OpenCamera InitParameters
  | WriteFile string
  | ViewerExit
  | CloseCamera

subsection \<open>The string operations \<^verbatim>\<open>parse_args\<close> uses\<close>

text \<open>
  Strings are lists of characters with code points below 256. \<^verbatim>\<open>s.endswith(suf)\<close>,
  \<^verbatim>\<open>sub in s\<close>, \<^verbatim>\<open>s.replace(c, '')\<close> and \<^verbatim>\<open>s.split(c)\<close> for a one-character
  \<^verbatim>\<open>c\<close>, \<^verbatim>\<open>s.isdigit()\<close> and \<^verbatim>\<open>int(s)\<close>.

  \<^verbatim>\<open>str.isdigit\<close> is true of a non-empty string of digit characters; below 256 these are
  the ten decimal digits and the superscripts two, three and one (code points 178, 179
  and 185). \<^verbatim>\<open>int\<close> only converts decimal digits: it is applied to a piece of a string
  that holds nothing but digit characters and dots, where it returns the decimal value of
  a non-empty string of at most \<^verbatim>\<open>sys.int_info.default_max_str_digits\<close> decimal digits and
  raises \<^verbatim>\<open>ValueError\<close> on anything else. (The limit is that of CPython 3.11 and later;
  earlier interpreters convert a longer string.)
\<close>

definition endswith :: "string \<Rightarrow> string \<Rightarrow> bool" where
  "endswith s suf = (length suf \<le> length s \<and> drop (length s - length suf) s = suf)"

fun contains :: "string \<Rightarrow> string \<Rightarrow> bool" where
  "contains sub [] = (sub = [])"
| "contains sub (c # cs) = (prefix sub (c # cs) \<or> contains sub cs)"

definition replace :: "char \<Rightarrow> string \<Rightarrow> string" where
  "replace c s = filter (\<lambda>x. x \<noteq> c) s"

fun split :: "char \<Rightarrow> string \<Rightarrow> string list" where
  "split c [] = [[]]"
| "split c (x # xs) =
     (if x = c then [] # split c xs
      else (case split c xs of [] \<Rightarrow> [[x]] | w # ws \<Rightarrow> (x # w) # ws))"

definition is_decimal :: "char \<Rightarrow> bool" where
  "is_decimal c = (c \<in> set ''0123456789'')"

definition is_digit :: "char \<Rightarrow> bool" where
  "is_digit c = (is_decimal c \<or> (of_char c :: nat) \<in> {178, 179, 185})"

definition isdigit :: "string \<Rightarrow> bool" where
  "isdigit s = (s \<noteq> [] \<and> list_all is_digit s)"

definition digit_value :: "char \<Rightarrow> int" where
  "digit_value c = int (of_char c) - 48"

definition max_str_digits :: nat where
  "max_str_digits = 4300"

definition int_py :: "string \<Rightarrow> py_error + int" where
  "int_py s =
     (if s \<noteq> [] \<and> list_all is_decimal s \<and> length s \<le> max_str_digits
      then Inr (foldl (\<lambda>acc c. 10 * acc + digit_value c) 0 s)
      else Inl ValueError)"

subsection \<open>\<^verbatim>\<open>parse_args\<close>\<close>

text \<open>
  The first \<^verbatim>\<open>if\<close> chain of \<^verbatim>\<open>parse_args\<close> selects the input. \<^verbatim>\<open>int\<close> is evaluated
  before \<^verbatim>\<open>set_from_stream\<close> is called, so when it raises nothing has been configured
  or printed yet, and the exception leaves \<^verbatim>\<open>parse_args\<close>.
\<close>

definition parse_args_input ::
  "InitParameters \<Rightarrow> options \<Rightarrow> py_error + (InitParameters \<times> effect list)" where
  "parse_args_input init opt =
     (if length (input_svo_file opt) > 0 \<and> endswith (input_svo_file opt) ''.svo'' then
        Inr (init\<lparr>input := SVO (input_svo_file opt)\<rparr>,
             [SetFromSvoFile (input_svo_file opt),
              Print (UsingSvoFileInput (input_svo_file opt))])
      else if length (ip_address opt) > 0 then
        (let ip_str = ip_address opt in
         if isdigit (replace CHR ''.'' (replace CHR '':'' ip_str))
            \<and> length (split CHR ''.'' ip_str) = 4 \<and> length (split CHR '':'' ip_str) = 2 then
           (case int_py (split CHR '':'' ip_str ! 1) of
              Inl e \<Rightarrow> Inl e
            | Inr port \<Rightarrow>
                Inr (init\<lparr>input := STREAM (split CHR '':'' ip_str ! 0) (Some port)\<rparr>,
                     [SetFromStream (split CHR '':'' ip_str ! 0) (Some port),
                      Print (UsingStreamInput ip_str)]))
         else if isdigit (replace CHR ''.'' (replace CHR '':'' ip_str))
            \<and> length (split CHR ''.'' ip_str) = 4 then
           Inr (init\<lparr>input := STREAM ip_str None\<rparr>,
                [SetFromStream ip_str None, Print (UsingStreamInput ip_str)])
         else Inr (init, [Print InvalidIpFormat]))
      else Inr (init, []))"

text \<open>The second chain sets the resolution; the first name found in the argument wins.\<close>

definition parse_args_resolution ::
  "InitParameters \<Rightarrow> options \<Rightarrow> InitParameters \<times> effect list" where
  "parse_args_resolution init opt =
     (if contains ''HD2K'' (resolution opt) then
        (init\<lparr>camera_resolution := HD2K\<rparr>, [Print (UsingCameraInResolution HD2K)])
      else if contains ''HD1200'' (resolution opt) then
        (init\<lparr>camera_resolution := HD1200\<rparr>, [Print (UsingCameraInResolution HD1200)])
      else if contains ''HD1080'' (resolution opt) then
        (init\<lparr>camera_resolution := HD1080\<rparr>, [Print (UsingCameraInResolution HD1080)])
      else if contains ''HD720'' (resolution opt) then
        (init\<lparr>camera_resolution := HD720\<rparr>, [Print (UsingCameraInResolution HD720)])
      else if contains ''SVGA'' (resolution opt) then
        (init\<lparr>camera_resolution := SVGA\<rparr>, [Print (UsingCameraInResolution SVGA)])
      else if contains ''VGA'' (resolution opt) then
        (init\<lparr>camera_resolution := VGA\<rparr>, [Print (UsingCameraInResolution VGA)])
      else if length (resolution opt) > 0 then
        (init, [Print NoValidResolutionEntered])
      else (init, [Print UsingDefaultResolution]))"

definition parse_args ::
  "InitParameters \<Rightarrow> options \<Rightarrow> py_error + (InitParameters \<times> effect list)" where
  "parse_args init opt =
     (case parse_args_input init opt of
        Inl e \<Rightarrow> Inl e
      | Inr (init1, out1) \<Rightarrow>
          (case parse_args_resolution init1 opt of
             (init2, out2) \<Rightarrow> Inr (init2, out1 @ out2)))"

text \<open>
  What a call of \<^verbatim>\<open>parse_args\<close> did to the outside: when it raises, nothing (see above).
\<close>

definition effects_of :: "py_error + (InitParameters \<times> effect list) \<Rightarrow> effect list" where
  "effects_of r = (case r of Inl e \<Rightarrow> [] | Inr (init, out) \<Rightarrow> out)"

section \<open>The program: \<^verbatim>\<open>main\<close> and its loop\<close>

text \<open>
  The viewer object is the external module's. The script reads and writes two of its
  attributes: \<^verbatim>\<open>save_data\<close>, and \<^verbatim>\<open>key_pressed\<close>, which it only reads after
  \<^verbatim>\<open>hasattr\<close> (\<open>None\<close>: the attribute does not exist) and compares with \<^verbatim>\<open>ord('r')\<close>,
  which is 114.
\<close>

record viewer =
  save_data :: bool
  key_pressed :: "int option"

text \<open>
  What the outside supplies to one pass of the \<^verbatim>\<open>while\<close> loop: what the viewer's own
  event handling does to its attributes (it runs inside \<^verbatim>\<open>is_available\<close> and
  \<^verbatim>\<open>updateData\<close>), the status of \<^verbatim>\<open>zed.grab\<close>, and for each of the two writes the
  formatted clock reading and the status \<^verbatim>\<open>write\<close> returns.
\<close>

record iteration =
  viewer_events :: "viewer \<Rightarrow> viewer"
  grab_status :: ERROR_CODE
  single_timestamp :: string
  single_write_status :: ERROR_CODE
  record_timestamp :: string
  record_write_status :: ERROR_CODE

text \<open>
  What the outside supplies to a run: the resolution \<^verbatim>\<open>sl.InitParameters\<close> starts with,
  the status of \<^verbatim>\<open>zed.open\<close>, the viewer as \<^verbatim>\<open>viewer.init\<close> leaves it, and one
  \<^typ>\<open>iteration\<close> for every time \<^verbatim>\<open>viewer.is_available()\<close> is true; after the last
  of them it is false.
\<close>

record environment =
  default_resolution :: RESOLUTION
  open_status :: ERROR_CODE
  viewer0 :: viewer
  iterations :: "iteration list"

text \<open>The variables of \<^verbatim>\<open>main\<close> that live across passes of the loop.\<close>

record loop_state =
  recording_enabled :: bool
  frame_count :: int
  the_viewer :: viewer

definition filename :: "string \<Rightarrow> string" where
  "filename timestamp = ''point_clouds/pointcloud_'' @ timestamp @ ''.ply''"

text \<open>\<^verbatim>\<open>if viewer.save_data:\<close> the one-shot save.\<close>

definition save_single :: "iteration \<Rightarrow> loop_state \<Rightarrow> loop_state \<times> effect list" where
  "save_single it s =
     (if save_data (the_viewer s) then
        (s\<lparr>the_viewer := (the_viewer s)\<lparr>save_data := False\<rparr>\<rparr>,
         [WriteFile (filename (single_timestamp it)),
          if single_write_status it = SUCCESS
          then Print (PointCloudSavedTo (filename (single_timestamp it)))
          else Print (FailedToSavePointCloud (single_write_status it))])
      else (s, []))"

text \<open>\<^verbatim>\<open>if hasattr(viewer, 'key_pressed') and viewer.key_pressed == ord('r'):\<close> the toggle.\<close>

definition toggle_recording :: "loop_state \<Rightarrow> loop_state \<times> effect list" where
  "toggle_recording s =
     (if key_pressed (the_viewer s) = Some 114 then
        (if \<not> recording_enabled s then
           (s\<lparr>recording_enabled := True, frame_count := 0,
              the_viewer := (the_viewer s)\<lparr>key_pressed := Some 0\<rparr>\<rparr>,
            [Print RecordingEnabled])
         else
           (s\<lparr>recording_enabled := False,
              the_viewer := (the_viewer s)\<lparr>key_pressed := Some 0\<rparr>\<rparr>,
            [Print (RecordingDisabled (frame_count s))]))
      else (s, []))"

text \<open>\<^verbatim>\<open>if recording_enabled:\<close> the continuous recording.\<close>

definition continuous_recording :: "iteration \<Rightarrow> loop_state \<Rightarrow> loop_state \<times> effect list" where
  "continuous_recording it s =
     (if recording_enabled s then
        (if record_write_status it = SUCCESS then
           (s\<lparr>frame_count := frame_count s + 1\<rparr>,
            [WriteFile (filename (record_timestamp it)),
             Print (RecordingFrame (frame_count s + 1) (filename (record_timestamp it)))])
         else
           (s, [WriteFile (filename (record_timestamp it)),
                Print (FailedToSaveFrame (record_write_status it))]))
      else (s, []))"

text \<open>One pass of the loop body, after \<^verbatim>\<open>viewer.is_available()\<close> was true.\<close>

definition loop_body :: "iteration \<Rightarrow> loop_state \<Rightarrow> loop_state \<times> effect list" where
  "loop_body it s =
     (let s0 = s\<lparr>the_viewer := viewer_events it (the_viewer s)\<rparr> in
      if grab_status it = SUCCESS then
        (case save_single it s0 of (s1, out1) \<Rightarrow>
         case toggle_recording s1 of (s2, out2) \<Rightarrow>
         case continuous_recording it s2 of (s3, out3) \<Rightarrow>
           (s3, out1 @ out2 @ out3))
      else (s0, []))"

text \<open>
  Whether a pass toggles the recording flag: the frame was grabbed and the viewer holds
  the key \<^verbatim>\<open>r\<close> when the pass reads it.
\<close>

definition toggled :: "iteration \<Rightarrow> loop_state \<Rightarrow> bool" where
  "toggled it s =
     (grab_status it = SUCCESS \<and> key_pressed (viewer_events it (the_viewer s)) = Some 114)"

fun main_loop :: "iteration list \<Rightarrow> loop_state \<Rightarrow> loop_state \<times> effect list" where
  "main_loop [] s = (s, [])"
| "main_loop (it # its) s =
     (case loop_body it s of (s', out) \<Rightarrow>
      case main_loop its s' of (s'', out') \<Rightarrow> (s'', out @ out'))"

text \<open>
  How a run ends: \<^verbatim>\<open>exit()\<close> was called, an exception left \<^verbatim>\<open>main\<close>, or the loop
  ended and the clean-up ran; each with what the run did up to there.
\<close>

datatype outcome =
    Exited "effect list"
  | Raised py_error "effect list"
  | Finished loop_state "effect list"

definition initial_state :: "environment \<Rightarrow> loop_state" where
  "initial_state env =
     \<lparr>recording_enabled = False, frame_count = 0, the_viewer = viewer0 env\<rparr>"

definition init_params :: "environment \<Rightarrow> InitParameters" where
  "init_params env = \<lparr>input = LIVE, camera_resolution = default_resolution env\<rparr>"

definition main :: "options \<Rightarrow> environment \<Rightarrow> outcome" where
  "main opt env =
     (case parse_args (init_params env) opt of
        Inl e \<Rightarrow> Raised e [Print Banner]
      | Inr (init, out) \<Rightarrow>
          if open_status env \<noteq> SUCCESS then
            Exited ([Print Banner] @ out
                    @ [OpenCamera init, Print (ErrorOpeningCamera (open_status env))])
          else
            (case main_loop (iterations env) (initial_state env) of
               (s, out') \<Rightarrow>
                 Finished s ([Print Banner] @ out @ [OpenCamera init] @ out'
                             @ [ViewerExit, CloseCamera, Print ApplicationClosed])))"

text \<open>The block under \<^verbatim>\<open>if __name__ == "__main__":\<close>, given the parsed options.\<close>

definition program :: "options \<Rightarrow> environment \<Rightarrow> outcome" where
  "program opt env =
     (if length (input_svo_file opt) > 0 \<and> length (ip_address opt) > 0 then
        Exited [Print SpecifyOnlyOneInput]
      else main opt env)"

section \<open>Properties of the depth colouring\<close>

lemma normalized_depth_near: "depth \<le> min_depth \<Longrightarrow> normalized_depth depth = 0"
  by (simp add: normalized_depth_def clamp_def min_depth_def max_depth_def
      divide_nonpos_pos max_def min_def)

lemma color_near: "depth \<le> min_depth \<Longrightarrow> color depth = (1, 0, 0)"
  by (simp add: color_def normalized_depth_near gradient_def segment1_def)

lemma normalized_depth_far: "max_depth \<le> depth \<Longrightarrow> normalized_depth depth = 1"
  by (simp add: normalized_depth_def clamp_def min_depth_def max_depth_def max_def min_def)

lemma color_far: "max_depth \<le> depth \<Longrightarrow> color depth = (0, 1 / 100, 1)"
  by (simp add: color_def normalized_depth_far gradient_def segment3_def)

lemmas shader_defs = color_def normalized_depth_def clamp_def min_depth_def max_depth_def
  gradient_def segment1_def segment2_def segment3_def Let_def

text \<open>
  Claim C5. For every depth at or below the near bound of 0.5 m the colouring returns
  pure red, the triple (1, 0, 0): the normalised depth is clamped to 0, which the first
  branch maps to \<open>(1, 0 * 3, 0)\<close>.
\<close>

theorem near_is_pure_red: "depth \<le> min_depth \<Longrightarrow> color depth = pure_red"
  by (simp add: color_near pure_red_def)

theorem near_is_pure_red_witness: "(0::rat) \<le> min_depth \<and> color 0 = pure_red"
  using near_is_pure_red [of 0] by (simp add: min_depth_def)

text \<open>
  Claim C1 says that every depth at or beyond the far bound of 10 m is coloured pure
  blue, (0, 0, 1). At the far bound itself the normalised depth is 1, the third branch
  computes \<open>t = (1 - 0.67) * 3 = 0.99\<close>, and the colour is \<open>(0, 1/100, 1)\<close>: the green
  channel does not reach 0. By \<open>color_far\<close> the same holds for every depth beyond.
\<close>

theorem far_is_not_pure_blue:
  "color max_depth = (0, 1 / 100, 1) \<and> color max_depth \<noteq> pure_blue"
  by (simp add: color_far pure_blue_def)

text \<open>
  Claim C2 says that the branches meet at the normalised depths 0.33 and 0.67. At 0.33
  the first branch's formula gives green \<open>0.33 * 3 = 0.99\<close> where the second starts
  with green 1; at 0.67 the second branch's formula gives \<open>t = (0.67 - 0.33) * 3 = 1.02\<close>,
  so red \<open>-0.02\<close> and blue \<open>1.02\<close>, where the third starts with red 0 and blue 1.
\<close>

theorem segments_disagree_at_boundaries:
  "segment1 0.33 = (1, 99 / 100, 0) \<and> segment2 0.33 = (1, 1, 0) \<and>
   segment2 0.67 = (- (1 / 50), 1, 51 / 50) \<and> segment3 0.67 = (0, 1, 1)"
  by (simp add: segment1_def segment2_def segment3_def)

text \<open>
  The same for the function itself: below 0.33 its green channel stays under 0.99 and at
  0.33 it is 1; just below 0.67 its red channel is at most \<open>-0.017\<close> and at 0.67 it is 0.
\<close>

lemma gradient_jump_at_first_boundary:
  "nd < 0.33 \<Longrightarrow> green_of (gradient nd) < 99 / 100 \<and> green_of (gradient 0.33) = 1"
  by (simp add: gradient_def segment1_def segment2_def green_of_def)

lemma gradient_jump_at_second_boundary:
  "0.669 \<le> nd \<Longrightarrow> nd < 0.67 \<Longrightarrow>
     red_of (gradient nd) \<le> - (17 / 1000) \<and> red_of (gradient 0.67) = 0"
  by (simp add: gradient_def segment2_def segment3_def red_of_def)

text \<open>
  Claim C3 says that every channel of every colour lies in \<open>[0, 1]\<close>. At a depth of
  6.85 m the normalised depth is \<open>127/190\<close>, between \<open>2/3\<close> and 0.67, where the second
  branch has \<open>t > 1\<close>: red is negative and blue exceeds 1.
\<close>

theorem channel_out_of_range:
  "red_of (color 6.85) = - (29 / 1900) \<and> blue_of (color 6.85) = 1929 / 1900"
  by (simp add: shader_defs red_of_def blue_of_def)

lemma gradient_overshoot:
  "2 / 3 < nd \<Longrightarrow> nd < 0.67 \<Longrightarrow> red_of (gradient nd) < 0 \<and> 1 < blue_of (gradient nd)"
  by (simp add: gradient_def segment2_def blue_of_def red_of_def)

text \<open>
  Claim C4 says that the colouring equals the reference definition, whose three ranges
  interpolate from red to yellow, from yellow to cyan and from cyan to blue and reach
  each end colour at the end of its range. At a depth of 1.45 m (normalised depth 0.1)
  the shader's green is \<open>0.1 * 3 = 3/10\<close> and the reference's is \<open>0.1 / 0.33 = 10/33\<close>;
  at 10 m the shader gives \<open>(0, 1/100, 1)\<close> and the reference pure blue.
\<close>

theorem color_differs_from_reference:
  "color 1.45 = (1, 3 / 10, 0) \<and> reference_color 1.45 = (1, 10 / 33, 0) \<and>
   color 10 = (0, 1 / 100, 1) \<and> reference_color 10 = (0, 0, 1)"
  by (simp add: shader_defs reference_color_def reference_gradient_def lerp_def
      pure_red_def pure_yellow_def pure_cyan_def pure_blue_def red_of_def green_of_def blue_of_def)

text \<open>
  How far the colouring is from the claims above: over all depths the channels stay
  within \<open>[-1/50, 51/50]\<close>, and no channel differs from the reference definition by more
  than \<open>1/50\<close>.
\<close>

lemma normalized_depth_range: "0 \<le> normalized_depth depth \<and> normalized_depth depth \<le> 1"
  by (simp add: normalized_depth_def clamp_def min_def max_def)

lemma reference_color_normalized: "reference_color depth = reference_gradient (normalized_depth depth)"
  by (simp add: reference_color_def normalized_depth_def min_depth_def max_depth_def)

lemma gradient_channels:
  assumes "0 \<le> nd" and "nd \<le> 1"
  shows "- (1 / 50) \<le> red_of (gradient nd) \<and> red_of (gradient nd) \<le> 1
       \<and> 0 \<le> green_of (gradient nd) \<and> green_of (gradient nd) \<le> 1
       \<and> 0 \<le> blue_of (gradient nd) \<and> blue_of (gradient nd) \<le> 51 / 50"
  using assms
  by (simp add: gradient_def segment1_def segment2_def segment3_def red_of_def green_of_def
      blue_of_def)

lemma gradient_deviation:
  assumes "0 \<le> nd" and "nd \<le> 1"
  shows "\<bar>red_of (gradient nd) - red_of (reference_gradient nd)\<bar> \<le> 1 / 50
       \<and> \<bar>green_of (gradient nd) - green_of (reference_gradient nd)\<bar> \<le> 1 / 50
       \<and> \<bar>blue_of (gradient nd) - blue_of (reference_gradient nd)\<bar> \<le> 1 / 50"
proof -
  consider "nd < 0.33" | "0.33 \<le> nd" "nd < 0.67" | "0.67 \<le> nd" by linarith
  then show ?thesis
  proof cases
    case 1
    with assms show ?thesis
      by (simp add: gradient_def reference_gradient_def segment1_def lerp_def pure_red_def
          pure_yellow_def red_of_def green_of_def blue_of_def field_simps abs_if)
  next
    case 2
    with assms show ?thesis
      by (simp add: gradient_def reference_gradient_def segment2_def lerp_def pure_cyan_def
          pure_yellow_def red_of_def green_of_def blue_of_def field_simps abs_if)
  next
    case 3
    with assms show ?thesis
      by (simp add: gradient_def reference_gradient_def segment3_def lerp_def pure_cyan_def
          pure_blue_def red_of_def green_of_def blue_of_def field_simps abs_if)
  qed
qed

text \<open>
  For every depth, red lies in \<open>[-1/50, 1]\<close>, green in \<open>[0, 1]\<close> and blue in
  \<open>[0, 51/50]\<close>.
\<close>

theorem channels_within_tolerance:
  "- (1 / 50) \<le> red_of (color depth) \<and> red_of (color depth) \<le> 1
   \<and> 0 \<le> green_of (color depth) \<and> green_of (color depth) \<le> 1
   \<and> 0 \<le> blue_of (color depth) \<and> blue_of (color depth) \<le> 51 / 50"
  unfolding color_def using gradient_channels normalized_depth_range by blast

text \<open>
  For every depth, each channel of the colouring is within \<open>1/50\<close> of the same channel
  of the reference definition.
\<close>

theorem reference_deviation:
  "\<bar>red_of (color depth) - red_of (reference_color depth)\<bar> \<le> 1 / 50
   \<and> \<bar>green_of (color depth) - green_of (reference_color depth)\<bar> \<le> 1 / 50
   \<and> \<bar>blue_of (color depth) - blue_of (reference_color depth)\<bar> \<le> 1 / 50"
  unfolding color_def reference_color_normalized
  using gradient_deviation normalized_depth_range by blast

text \<open>
  For every depth at or beyond the far bound the colouring returns \<open>(0, 1/100, 1)\<close>.
\<close>

theorem far_colour: "max_depth \<le> depth \<Longrightarrow> color depth = (0, 1 / 100, 1)"
  by (rule color_far)

theorem far_colour_witness: "max_depth \<le> 12 \<and> color 12 = (0, 1 / 100, 1)"
  using far_colour [of 12] by (simp add: max_depth_def)

section \<open>Properties of \<^verbatim>\<open>parse_args\<close> and of the entry point\<close>

text \<open>
  The executable string tests agree with the library's notions: \<^const>\<open>endswith\<close> is
  \<^const>\<open>suffix\<close> and \<^const>\<open>contains\<close> is \<^const>\<open>sublist\<close>, a contiguous occurrence.
\<close>

lemma endswith_iff_suffix: "endswith s suf \<longleftrightarrow> suffix suf s"
proof
  assume "endswith s suf"
  then have "s = take (length s - length suf) s @ suf"
    by (metis append_take_drop_id endswith_def)
  then show "suffix suf s" by (metis suffixI)
next
  assume "suffix suf s"
  then obtain zs where "s = zs @ suf" by (auto simp: suffix_def)
  then show "endswith s suf" by (simp add: endswith_def)
qed

lemma contains_iff_sublist: "contains sub s \<longleftrightarrow> sublist sub s"
  by (induction s) (auto simp: sublist_Cons_right)

lemma contains_iff: "contains sub s \<longleftrightarrow> (\<exists>ps ss. s = ps @ sub @ ss)"
  by (simp add: contains_iff_sublist sublist_def)

lemma parse_args_input_ignore:
  "input_svo_file opt \<noteq> [] \<Longrightarrow> \<not> endswith (input_svo_file opt) ''.svo'' \<Longrightarrow>
   parse_args_input init opt = parse_args_input init (opt\<lparr>input_svo_file := []\<rparr>)"
  by (simp add: parse_args_input_def)

lemma parse_args_resolution_svo:
  "parse_args_resolution init (opt\<lparr>input_svo_file := f\<rparr>) = parse_args_resolution init opt"
  by (simp add: parse_args_resolution_def)

lemma parse_args_ignore:
  "input_svo_file opt \<noteq> [] \<Longrightarrow> \<not> endswith (input_svo_file opt) ''.svo'' \<Longrightarrow>
   parse_args init opt = parse_args init (opt\<lparr>input_svo_file := []\<rparr>)"
  by (simp add: parse_args_def parse_args_input_ignore parse_args_resolution_svo
      cong: sum.case_cong)

lemma resolution_effects: "SetFromSvoFile f \<notin> set (snd (parse_args_resolution init opt))"
  by (simp add: parse_args_resolution_def)

lemma resolution_input: "input (fst (parse_args_resolution init opt)) = input init"
  by (simp add: parse_args_resolution_def)

lemma input_effects_no_svo:
  "\<not> endswith (input_svo_file opt) ''.svo'' \<Longrightarrow> parse_args_input init opt = Inr (init', out) \<Longrightarrow>
   SetFromSvoFile f \<notin> set out"
  by (auto simp: parse_args_input_def Let_def split: if_splits sum.splits)

lemma parse_args_no_svo_call:
  assumes "\<not> endswith (input_svo_file opt) ''.svo''"
  shows "SetFromSvoFile f \<notin> set (effects_of (parse_args init opt))"
proof (cases "parse_args_input init opt")
  case (Inl e)
  then show ?thesis by (simp add: parse_args_def effects_of_def)
next
  case (Inr r)
  obtain init1 out1 where r: "r = (init1, out1)" by (cases r)
  obtain init2 out2 where p: "parse_args_resolution init1 opt = (init2, out2)"
    by (cases "parse_args_resolution init1 opt")
  have "SetFromSvoFile f \<notin> set out1"
    using input_effects_no_svo [OF assms] Inr r by blast
  moreover have "SetFromSvoFile f \<notin> set out2"
    using resolution_effects [of f init1 opt] p by simp
  ultimately show ?thesis
    using Inr r p by (simp add: parse_args_def effects_of_def)
qed

lemma parse_args_no_ip:
  assumes "\<not> (input_svo_file opt \<noteq> [] \<and> endswith (input_svo_file opt) ''.svo'')"
    and "ip_address opt = []"
  shows "\<exists>init' out. parse_args init opt = Inr (init', out) \<and> input init' = input init"
proof -
  have i: "parse_args_input init opt = Inr (init, [])"
    using assms by (auto simp add: parse_args_input_def)
  obtain init2 out2 where p: "parse_args_resolution init opt = (init2, out2)"
    by (cases "parse_args_resolution init opt")
  have "input init2 = input init" using resolution_input [of init opt] p by simp
  then show ?thesis using i p by (simp add: parse_args_def)
qed

text \<open>
  Claim C10. A non-empty \<^verbatim>\<open>--input_svo_file\<close> that does not end in \<^verbatim>\<open>.svo\<close> is ignored:
  \<^verbatim>\<open>parse_args\<close> behaves exactly as it does with the argument empty, it never calls
  \<^verbatim>\<open>set_from_svo_file\<close>, and when \<^verbatim>\<open>--ip_address\<close> is empty it returns with the input the
  parameters had before (the live camera, for the parameters \<^verbatim>\<open>main\<close> builds).
\<close>

theorem non_svo_file_ignored:
  assumes "input_svo_file opt \<noteq> []" and "\<not> endswith (input_svo_file opt) ''.svo''"
  shows "parse_args init opt = parse_args init (opt\<lparr>input_svo_file := []\<rparr>)
       \<and> (\<forall>f. SetFromSvoFile f \<notin> set (effects_of (parse_args init opt)))
       \<and> (ip_address opt = [] \<longrightarrow>
            (\<exists>init' out. parse_args init opt = Inr (init', out) \<and> input init' = input init))"
  using assms parse_args_ignore parse_args_no_svo_call parse_args_no_ip by blast

theorem non_svo_file_ignored_witness:
  "input_svo_file \<lparr>input_svo_file = ''clip.mp4'', ip_address = [], resolution = []\<rparr> \<noteq> []
   \<and> \<not> endswith ''clip.mp4'' ''.svo''
   \<and> parse_args \<lparr>input = LIVE, camera_resolution = AUTO\<rparr>
        \<lparr>input_svo_file = ''clip.mp4'', ip_address = [], resolution = []\<rparr>
      = Inr (\<lparr>input = LIVE, camera_resolution = AUTO\<rparr>, [Print UsingDefaultResolution])
   \<and> (\<forall>f. SetFromSvoFile f \<notin> set (effects_of (parse_args \<lparr>input = LIVE, camera_resolution = AUTO\<rparr>
        \<lparr>input_svo_file = ''clip.mp4'', ip_address = [], resolution = []\<rparr>)))"
  using non_svo_file_ignored [of "\<lparr>input_svo_file = ''clip.mp4'', ip_address = [], resolution = []\<rparr>"
      "\<lparr>input = LIVE, camera_resolution = AUTO\<rparr>"]
  by (simp add: endswith_def parse_args_def parse_args_input_def parse_args_resolution_def)

lemma parse_args_resolution_value:
  "camera_resolution (fst (parse_args_resolution init opt)) =
     (if contains ''HD2K'' (resolution opt) then HD2K
      else if contains ''HD1200'' (resolution opt) then HD1200
      else if contains ''HD1080'' (resolution opt) then HD1080
      else if contains ''HD720'' (resolution opt) then HD720
      else if contains ''SVGA'' (resolution opt) then SVGA
      else if contains ''VGA'' (resolution opt) then VGA
      else camera_resolution init)"
  by (simp add: parse_args_resolution_def)

lemma parse_args_input_resolution:
  "parse_args_input init opt = Inr (init1, out1) \<Longrightarrow> camera_resolution init1 = camera_resolution init"
  by (auto simp: parse_args_input_def Let_def split: if_splits sum.splits)

lemma parse_args_Inr:
  "parse_args init opt = Inr (init', out) \<Longrightarrow>
   \<exists>init1 out1. parse_args_input init opt = Inr (init1, out1)
      \<and> init' = fst (parse_args_resolution init1 opt)
      \<and> out = out1 @ snd (parse_args_resolution init1 opt)"
  by (auto simp: parse_args_def split: sum.splits prod.splits)

text \<open>
  The resolution chain of \<^verbatim>\<open>parse_args\<close>: whenever \<^verbatim>\<open>parse_args\<close> returns, the
  resolution of the parameters is the constant of the first of the six names, in the
  order HD2K, HD1200, HD1080, HD720, SVGA, VGA, that occurs in \<^verbatim>\<open>--resolution\<close> as a
  contiguous substring, and is what it was before when none occurs.
\<close>

theorem resolution_mapping:
  assumes "parse_args init opt = Inr (init', out)"
  shows "camera_resolution init' =
     (if sublist ''HD2K'' (resolution opt) then HD2K
      else if sublist ''HD1200'' (resolution opt) then HD1200
      else if sublist ''HD1080'' (resolution opt) then HD1080
      else if sublist ''HD720'' (resolution opt) then HD720
      else if sublist ''SVGA'' (resolution opt) then SVGA
      else if sublist ''VGA'' (resolution opt) then VGA
      else camera_resolution init)"
proof -
  obtain init1 out1 where i: "parse_args_input init opt = Inr (init1, out1)"
    and r: "init' = fst (parse_args_resolution init1 opt)"
    using parse_args_Inr [OF assms] by blast
  have "camera_resolution init1 = camera_resolution init"
    using parse_args_input_resolution [OF i] .
  then show ?thesis
    unfolding r parse_args_resolution_value contains_iff_sublist by simp
qed

theorem resolution_mapping_witness:
  "parse_args \<lparr>input = LIVE, camera_resolution = AUTO\<rparr>
      \<lparr>input_svo_file = [], ip_address = [], resolution = ''SVGA''\<rparr>
    = Inr (\<lparr>input = LIVE, camera_resolution = SVGA\<rparr>, [Print (UsingCameraInResolution SVGA)])
   \<and> camera_resolution \<lparr>input = LIVE, camera_resolution = SVGA\<rparr> = SVGA
   \<and> sublist ''SVGA'' ''SVGA'' \<and> sublist ''VGA'' ''SVGA'' \<and> \<not> sublist ''HD720'' ''SVGA''"
proof -
  have p: "parse_args \<lparr>input = LIVE, camera_resolution = AUTO\<rparr>
      \<lparr>input_svo_file = [], ip_address = [], resolution = ''SVGA''\<rparr>
    = Inr (\<lparr>input = LIVE, camera_resolution = SVGA\<rparr>, [Print (UsingCameraInResolution SVGA)])"
    by (simp add: parse_args_def parse_args_input_def parse_args_resolution_def)
  have s: "sublist ''SVGA'' ''SVGA'' \<and> sublist ''VGA'' ''SVGA'' \<and> \<not> sublist ''HD720'' ''SVGA''"
    by (simp add: contains_iff_sublist [symmetric])
  show ?thesis using resolution_mapping [OF p] p s by simp
qed

text \<open>
  Claim C7. When \<^verbatim>\<open>--input_svo_file\<close> and \<^verbatim>\<open>--ip_address\<close> are both non-empty, the
  program prints the error message and exits: that print is all it does, so \<^verbatim>\<open>main\<close>
  is not called, no camera is opened and nothing is configured.
\<close>

theorem both_inputs_exit:
  "input_svo_file opt \<noteq> [] \<Longrightarrow> ip_address opt \<noteq> [] \<Longrightarrow>
     program opt env = Exited [Print SpecifyOnlyOneInput]"
  by (simp add: program_def)

theorem both_inputs_exit_witness:
  "input_svo_file \<lparr>input_svo_file = ''a.svo'', ip_address = ''1.2.3.4'', resolution = []\<rparr> \<noteq> []
   \<and> ip_address \<lparr>input_svo_file = ''a.svo'', ip_address = ''1.2.3.4'', resolution = []\<rparr> \<noteq> []
   \<and> program \<lparr>input_svo_file = ''a.svo'', ip_address = ''1.2.3.4'', resolution = []\<rparr>
       \<lparr>default_resolution = AUTO, open_status = SUCCESS,
        viewer0 = \<lparr>save_data = False, key_pressed = None\<rparr>, iterations = []\<rparr>
     = Exited [Print SpecifyOnlyOneInput]"
  using both_inputs_exit [of "\<lparr>input_svo_file = ''a.svo'', ip_address = ''1.2.3.4'', resolution = []\<rparr>"
      "\<lparr>default_resolution = AUTO, open_status = SUCCESS,
        viewer0 = \<lparr>save_data = False, key_pressed = None\<rparr>, iterations = []\<rparr>"]
  by simp

text \<open>
  Claim C8 says that \<^verbatim>\<open>parse_args\<close> sets the resolution for every \<^verbatim>\<open>--resolution\<close>
  that contains one of the six names. With \<^verbatim>\<open>--ip_address 1.2.3.4:\<close> the address passes
  the digit test and has four dot-separated and two colon-separated parts, the port part
  is empty, \<^verbatim>\<open>int('')\<close> raises \<^verbatim>\<open>ValueError\<close>, and \<^verbatim>\<open>parse_args\<close> is left before the
  resolution chain: \<^verbatim>\<open>--resolution HD720\<close> sets nothing, and \<^verbatim>\<open>main\<close> ends with the
  exception after its banner.
\<close>

theorem parse_args_raises_before_resolution:
  "parse_args \<lparr>input = LIVE, camera_resolution = AUTO\<rparr>
     \<lparr>input_svo_file = [], ip_address = ''1.2.3.4:'', resolution = ''HD720''\<rparr> = Inl ValueError
   \<and> main \<lparr>input_svo_file = [], ip_address = ''1.2.3.4:'', resolution = ''HD720''\<rparr> env
       = Raised ValueError [Print Banner]"
  by (simp add: main_def init_params_def parse_args_def parse_args_input_def replace_def
      isdigit_def is_digit_def is_decimal_def int_py_def)

text \<open>
  A port written with a superscript digit passes \<^verbatim>\<open>isdigit\<close> and is refused by
  \<^verbatim>\<open>int\<close>: \<^verbatim>\<open>parse_args\<close> raises as it does for the empty port.
\<close>

lemma superscript_port_raises:
  "parse_args init \<lparr>input_svo_file = [], ip_address = ''1.2.3.4:'' @ [CHR 0xB2], resolution = []\<rparr>
     = Inl ValueError"
  by (simp add: parse_args_def parse_args_input_def replace_def
      isdigit_def is_digit_def is_decimal_def int_py_def)

section \<open>Properties of the main loop\<close>

lemma save_single_frame:
  "frame_count (fst (save_single it s)) = frame_count s
   \<and> recording_enabled (fst (save_single it s)) = recording_enabled s"
  by (simp add: save_single_def)

lemma save_single_status_irrelevant:
  "fst (save_single it s) = fst (save_single (it\<lparr>single_write_status := st\<rparr>) s)"
  by (simp add: save_single_def)

lemma toggle_recording_count:
  "frame_count (fst (toggle_recording s)) =
     (if key_pressed (the_viewer s) = Some 114 \<and> \<not> recording_enabled s then 0 else frame_count s)"
  by (simp add: toggle_recording_def)

lemma toggle_recording_flag:
  "recording_enabled (fst (toggle_recording s)) =
     (if key_pressed (the_viewer s) = Some 114 then \<not> recording_enabled s else recording_enabled s)"
  by (simp add: toggle_recording_def)

lemma continuous_recording_count:
  "frame_count (fst (continuous_recording it s)) =
     (if recording_enabled s \<and> record_write_status it = SUCCESS then frame_count s + 1
      else frame_count s)"
  by (simp add: continuous_recording_def)

lemma continuous_recording_flag:
  "recording_enabled (fst (continuous_recording it s)) = recording_enabled s"
  by (simp add: continuous_recording_def)

lemma loop_body_fst:
  "fst (loop_body it s) =
     (if grab_status it = SUCCESS then
        fst (continuous_recording it (fst (toggle_recording (fst (save_single it
          (s\<lparr>the_viewer := viewer_events it (the_viewer s)\<rparr>))))))
      else s\<lparr>the_viewer := viewer_events it (the_viewer s)\<rparr>)"
  by (simp add: loop_body_def Let_def split: prod.splits)

lemma save_single_viewer_key:
  "key_pressed (the_viewer (fst (save_single it s))) = key_pressed (the_viewer s)"
  by (simp add: save_single_def)

lemma loop_body_flag:
  "recording_enabled (fst (loop_body it s)) =
     (if toggled it s then \<not> recording_enabled s else recording_enabled s)"
  by (simp add: loop_body_fst toggled_def continuous_recording_flag toggle_recording_flag
      save_single_frame save_single_viewer_key)

lemma loop_body_count:
  "frame_count (fst (loop_body it s)) =
     (if grab_status it = SUCCESS then
        (if recording_enabled (fst (loop_body it s)) \<and> record_write_status it = SUCCESS then 1 else 0)
        + (if toggled it s \<and> \<not> recording_enabled s then 0 else frame_count s)
      else frame_count s)"
  by (simp add: loop_body_fst toggled_def continuous_recording_flag toggle_recording_flag
      continuous_recording_count toggle_recording_count
      save_single_frame save_single_viewer_key)

lemma loop_body_nonneg: "0 \<le> frame_count s \<Longrightarrow> 0 \<le> frame_count (fst (loop_body it s))"
  by (subst loop_body_count) simp

lemma loop_body_off: "\<not> recording_enabled (fst (loop_body it s)) \<Longrightarrow>
   frame_count (fst (loop_body it s)) = frame_count s"
  by (subst loop_body_count) (auto simp: loop_body_flag split: if_splits)

lemma loop_body_mono: "recording_enabled s \<Longrightarrow> frame_count s \<le> frame_count (fst (loop_body it s))"
  by (subst loop_body_count) simp

lemma main_loop_fst_Cons:
  "fst (main_loop (it # its) s) = fst (main_loop its (fst (loop_body it s)))"
  by (simp split: prod.splits)

lemma main_loop_nonneg: "0 \<le> frame_count s \<Longrightarrow> 0 \<le> frame_count (fst (main_loop its s))"
proof (induction its arbitrary: s)
  case Nil
  then show ?case by simp
next
  case (Cons it its)
  show ?case
    unfolding main_loop_fst_Cons
    by (rule Cons.IH) (rule loop_body_nonneg [OF Cons.prems])
qed

lemma main_loop_mono:
  "(\<forall>k\<le>length its. recording_enabled (fst (main_loop (take k its) s))) \<Longrightarrow>
     frame_count s \<le> frame_count (fst (main_loop its s))"
proof (induction its arbitrary: s)
  case Nil
  then show ?case by simp
next
  case (Cons it its)
  have r0: "recording_enabled s" using Cons.prems [rule_format, of 0] by simp
  have "\<forall>k\<le>length its. recording_enabled (fst (main_loop (take k its) (fst (loop_body it s))))"
  proof (intro allI impI)
    fix k assume "k \<le> length its"
    then have "Suc k \<le> length (it # its)" by simp
    from Cons.prems [rule_format, OF this]
    show "recording_enabled (fst (main_loop (take k its) (fst (loop_body it s))))"
      by (simp add: main_loop_fst_Cons del: main_loop.simps)
  qed
  then have "frame_count (fst (loop_body it s)) \<le> frame_count (fst (main_loop its (fst (loop_body it s))))"
    by (rule Cons.IH)
  with loop_body_mono [OF r0, of it] show ?case
    unfolding main_loop_fst_Cons by linarith
qed


text \<open>
  Claim C9. The frame counter changes in two places only: the toggle sets it to 0 when
  it switches recording on, and the continuous recording adds 1 after a successful
  write while recording is on; the one-shot save and a failed grab leave it alone. So a
  pass keeps it non-negative, leaves it unchanged when recording is off afterwards, and
  never lowers it when recording was on before. Over the whole loop it is non-negative
  after any number of passes, and non-decreasing over any run of passes throughout
  which recording is enabled.
\<close>

theorem frame_counter_discipline:
  "frame_count (fst (save_single it s)) = frame_count s
   \<and> frame_count (fst (toggle_recording s)) =
       (if key_pressed (the_viewer s) = Some 114 \<and> \<not> recording_enabled s then 0
        else frame_count s)
   \<and> frame_count (fst (continuous_recording it s)) =
       (if recording_enabled s \<and> record_write_status it = SUCCESS then frame_count s + 1
        else frame_count s)
   \<and> recording_enabled (fst (loop_body it s)) =
       (if toggled it s then \<not> recording_enabled s else recording_enabled s)
   \<and> frame_count (fst (loop_body it s)) =
       (if grab_status it = SUCCESS then
          (if recording_enabled (fst (loop_body it s)) \<and> record_write_status it = SUCCESS
           then 1 else 0)
          + (if toggled it s \<and> \<not> recording_enabled s then 0 else frame_count s)
        else frame_count s)
   \<and> (0 \<le> frame_count s \<longrightarrow> 0 \<le> frame_count (fst (loop_body it s)))
   \<and> (\<not> recording_enabled (fst (loop_body it s)) \<longrightarrow>
        frame_count (fst (loop_body it s)) = frame_count s)
   \<and> (recording_enabled s \<longrightarrow> frame_count s \<le> frame_count (fst (loop_body it s)))
   \<and> 0 \<le> frame_count (fst (main_loop its (initial_state env)))
   \<and> ((\<forall>k\<le>length its. recording_enabled (fst (main_loop (take k its) s))) \<longrightarrow>
        frame_count s \<le> frame_count (fst (main_loop its s)))"
proof -
  have "0 \<le> frame_count (fst (main_loop its (initial_state env)))"
    by (rule main_loop_nonneg) (simp add: initial_state_def)
  then show ?thesis
    using save_single_frame [of it s] toggle_recording_count [of s]
      continuous_recording_count [of it s] loop_body_flag [of it s] loop_body_count [of it s]
      loop_body_nonneg [of s it] loop_body_off [of it s] loop_body_mono [of s it]
      main_loop_mono [of its s]
    by blast
qed

theorem frame_counter_discipline_witness:
  "recording_enabled \<lparr>recording_enabled = True, frame_count = 3,
       the_viewer = \<lparr>save_data = False, key_pressed = None\<rparr>\<rparr>
   \<and> (0::int) \<le> 3
   \<and> frame_count (fst (loop_body
        \<lparr>viewer_events = (\<lambda>v. v), grab_status = SUCCESS, single_timestamp = ''t1'',
         single_write_status = SUCCESS, record_timestamp = ''t2'', record_write_status = SUCCESS\<rparr>
        \<lparr>recording_enabled = True, frame_count = 3,
         the_viewer = \<lparr>save_data = False, key_pressed = None\<rparr>\<rparr>)) = 4
   \<and> \<not> recording_enabled (fst (loop_body
        \<lparr>viewer_events = (\<lambda>v. v), grab_status = SUCCESS, single_timestamp = ''t1'',
         single_write_status = SUCCESS, record_timestamp = ''t2'', record_write_status = SUCCESS\<rparr>
        \<lparr>recording_enabled = False, frame_count = 3,
         the_viewer = \<lparr>save_data = False, key_pressed = None\<rparr>\<rparr>))
   \<and> frame_count (fst (loop_body
        \<lparr>viewer_events = (\<lambda>v. v), grab_status = SUCCESS, single_timestamp = ''t1'',
         single_write_status = SUCCESS, record_timestamp = ''t2'', record_write_status = SUCCESS\<rparr>
        \<lparr>recording_enabled = False, frame_count = 3,
         the_viewer = \<lparr>save_data = False, key_pressed = None\<rparr>\<rparr>)) = 3
   \<and> frame_count (fst (main_loop
        [\<lparr>viewer_events = (\<lambda>v. v), grab_status = SUCCESS, single_timestamp = ''t1'',
          single_write_status = SUCCESS, record_timestamp = ''t2'', record_write_status = SUCCESS\<rparr>]
        \<lparr>recording_enabled = True, frame_count = 3,
         the_viewer = \<lparr>save_data = False, key_pressed = None\<rparr>\<rparr>)) = 4"
  using frame_counter_discipline [of
      "\<lparr>viewer_events = (\<lambda>v. v), grab_status = SUCCESS, single_timestamp = ''t1'',
        single_write_status = SUCCESS, record_timestamp = ''t2'', record_write_status = SUCCESS\<rparr>"
      "\<lparr>recording_enabled = True, frame_count = 3,
        the_viewer = \<lparr>save_data = False, key_pressed = None\<rparr>\<rparr>"
      "[\<lparr>viewer_events = (\<lambda>v. v), grab_status = SUCCESS, single_timestamp = ''t1'',
         single_write_status = SUCCESS, record_timestamp = ''t2'', record_write_status = SUCCESS\<rparr>]"]
    frame_counter_discipline [of
      "\<lparr>viewer_events = (\<lambda>v. v), grab_status = SUCCESS, single_timestamp = ''t1'',
        single_write_status = SUCCESS, record_timestamp = ''t2'', record_write_status = SUCCESS\<rparr>"
      "\<lparr>recording_enabled = False, frame_count = 3,
        the_viewer = \<lparr>save_data = False, key_pressed = None\<rparr>\<rparr>" "[]"]
  by (simp add: loop_body_def save_single_def toggle_recording_def continuous_recording_def)















end
